theory Spec2Isabelle
  imports Complex_Main "HOL-Library.AList" "HOL-Library.Sublist"
begin

section \<open>The copyKAT adapter of infercnvpy (\<^verbatim>\<open>infercnvpy/tl/_copykat.py\<close>)\<close>

text \<open>
  The function \<^verbatim>\<open>copykat\<close> hands an expression matrix to an R routine and turns the
  table that comes back into a cells by bins matrix and a chromosome lookup table.
  Python exceptions are values of \<open>error\<close>; a result is \<open>error + 'a\<close> with \<open>Inl\<close> the
  exception.
\<close>

subsection \<open>Python values, exceptions, \<^verbatim>\<open>str\<close> and \<^verbatim>\<open>int\<close>\<close>

datatype error =
    ImportError string
  | NameError string
  | KeyError string
  | ValueError string
  | RRuntimeError string

text \<open>
  An entry of the result table or one of its row labels: a Python integer or a Python
  string. Floating-point entries are moved around by the adapter like any other entry;
  their text form is not modelled.
\<close>

datatype pyval = IntV int | StrV string

fun string_of_nat :: "nat \<Rightarrow> string" where
  "string_of_nat n =
     (if n < 10 then [char_of (48 + n)]
      else string_of_nat (n div 10) @ [char_of (48 + n mod 10)])"

declare string_of_nat.simps [simp del]

definition string_of_int :: "int \<Rightarrow> string" where
  "string_of_int i = (if i < 0 then CHR ''-'' # string_of_nat (nat (- i)) else string_of_nat (nat i))"

text \<open>The text an f-string field \<^verbatim>\<open>{v}\<close> produces.\<close>

fun py_str :: "pyval \<Rightarrow> string" where
  "py_str (IntV i) = string_of_int i"
| "py_str (StrV s) = s"

definition is_space :: "char \<Rightarrow> bool" where
  "is_space c = (of_char c \<in> {9, 10, 11, 12, 13, 28, 29, 30, 31, 32 :: nat})"

definition is_digit :: "char \<Rightarrow> bool" where
  "is_digit c = (48 \<le> (of_char c :: nat) \<and> (of_char c :: nat) \<le> 57)"

definition digit_val :: "char \<Rightarrow> nat" where
  "digit_val c = of_char c - 48"

definition strip :: "string \<Rightarrow> string" where
  "strip s = rev (dropWhile is_space (rev (dropWhile is_space s)))"

text \<open>
  Decimal digits with single underscores between digits, as \<^verbatim>\<open>int(str)\<close> reads them;
  the flag says that the previous character was a digit.
\<close>

fun parse_digits :: "nat \<Rightarrow> bool \<Rightarrow> string \<Rightarrow> nat option" where
  "parse_digits acc prev [] = (if prev then Some acc else None)"
| "parse_digits acc prev (c # cs) =
     (if is_digit c then parse_digits (10 * acc + digit_val c) True cs
      else if c = CHR ''_'' \<and> prev then parse_digits acc False cs
      else None)"

definition int_of_string :: "string \<Rightarrow> int option" where
  "int_of_string s =
     (case strip s of
        [] \<Rightarrow> None
      | c # cs \<Rightarrow>
          if c = CHR ''-'' then map_option (\<lambda>n. - int n) (parse_digits 0 False cs)
          else if c = CHR ''+'' then map_option int (parse_digits 0 False cs)
          else map_option int (parse_digits 0 False (c # cs)))"

text \<open>\<^verbatim>\<open>int(v)\<close>: the integer itself, or the string read as an ASCII decimal literal.\<close>

fun py_int :: "pyval \<Rightarrow> error + int" where
  "py_int (IntV i) = Inr i"
| "py_int (StrV s) =
     (case int_of_string s of
        None \<Rightarrow> Inl (ValueError ''invalid literal for int() with base 10'')
      | Some i \<Rightarrow> Inr i)"

subsection \<open>Worker count (lines 73 to 76)\<close>

definition effective_n_jobs :: "string \<Rightarrow> int \<Rightarrow> int option \<Rightarrow> int" where
  "effective_n_jobs os_name cpu_count n_jobs =
     (let n = (case n_jobs of None \<Rightarrow> cpu_count | Some k \<Rightarrow> k)
      in if os_name \<noteq> ''posix'' then 1 else n)"

subsection \<open>Arrays and sparse matrices\<close>

text \<open>
  A two-dimensional numpy array: its shape and its rows. A scipy sparse matrix: its shape
  and its stored entries in coordinate form; entries stored at the same coordinate add up
  when the matrix is made dense, and a coordinate with no entry holds zero.
\<close>

record 'a ndarray =
  nrows :: nat
  ncols :: nat
  rows :: "'a list list"

record 'a spmatrix =
  sp_nrows :: nat
  sp_ncols :: nat
  entries :: "((nat \<times> nat) \<times> 'a) list"

datatype 'a matrix = DenseM "'a ndarray" | SparseM "'a spmatrix"

text \<open>An array is well formed when its rows agree with its shape.\<close>

definition wf_ndarray :: "'a ndarray \<Rightarrow> bool" where
  "wf_ndarray A = (length (rows A) = nrows A \<and> list_all (\<lambda>r. length r = ncols A) (rows A))"

text \<open>\<^verbatim>\<open>A.T\<close> on an array.\<close>

definition T_ndarray :: "'a ndarray \<Rightarrow> 'a ndarray" where
  "T_ndarray A =
     \<lparr>nrows = ncols A, ncols = nrows A,
      rows = map (\<lambda>j. map (\<lambda>i. rows A ! i ! j) [0..<nrows A]) [0..<ncols A]\<rparr>"

text \<open>\<^verbatim>\<open>S.T\<close> on a sparse matrix.\<close>

definition T_spmatrix :: "'a spmatrix \<Rightarrow> 'a spmatrix" where
  "T_spmatrix S =
     \<lparr>sp_nrows = sp_ncols S, sp_ncols = sp_nrows S,
      entries = map (\<lambda>((i, j), v). ((j, i), v)) (entries S)\<rparr>"

definition sp_at :: "'a::comm_monoid_add spmatrix \<Rightarrow> nat \<Rightarrow> nat \<Rightarrow> 'a" where
  "sp_at S i j = sum_list (map snd (filter (\<lambda>e. fst e = (i, j)) (entries S)))"

text \<open>\<^verbatim>\<open>S.toarray()\<close>.\<close>

definition toarray :: "'a::comm_monoid_add spmatrix \<Rightarrow> 'a ndarray" where
  "toarray S =
     \<lparr>nrows = sp_nrows S, ncols = sp_ncols S,
      rows = map (\<lambda>i. map (\<lambda>j. sp_at S i j) [0..<sp_ncols S]) [0..<sp_nrows S]\<rparr>"

text \<open>
  The conversion step, lines 98 to 101: \<^verbatim>\<open>expr.T.toarray()\<close> where \<^verbatim>\<open>issparse(expr)\<close>
  holds, \<^verbatim>\<open>expr.T\<close> otherwise.
\<close>

fun convert_expr :: "'a::comm_monoid_add matrix \<Rightarrow> 'a ndarray" where
  "convert_expr (SparseM S) = toarray (T_spmatrix S)"
| "convert_expr (DenseM A) = T_ndarray A"

subsection \<open>The result table\<close>

text \<open>
  A data frame: its row labels and its labelled columns, in order. Every column of a data
  frame has one entry per row label.
\<close>

record frame =
  index :: "pyval list"
  columns :: "(string \<times> pyval list) list"


text \<open>
  Line 121, \<^verbatim>\<open>str_replace_all(colnames(copyKAT_result), "\\.", "-")\<close>: the pattern is a
  literal period.
\<close>

definition str_replace_all_period :: "string \<Rightarrow> string" where
  "str_replace_all_period s = map (\<lambda>c. if c = CHR ''.'' then CHR ''-'' else c) s"

definition rename_colnames :: "frame \<Rightarrow> frame" where
  "rename_colnames f = f\<lparr>columns := map (\<lambda>(l, vs). (str_replace_all_period l, vs)) (columns f)\<rparr>"

text \<open>\<^verbatim>\<open>df.loc[:, labels]\<close>: the columns carrying each label, \<^verbatim>\<open>KeyError\<close> for a label no column carries.\<close>

definition loc_columns :: "string list \<Rightarrow> frame \<Rightarrow> error + frame" where
  "loc_columns labels f =
     (case filter (\<lambda>l. l \<notin> set (map fst (columns f))) labels of
        l # _ \<Rightarrow> Inl (KeyError l)
      | [] \<Rightarrow> Inr (f\<lparr>columns := concat (map (\<lambda>l. filter (\<lambda>c. fst c = l) (columns f)) labels)\<rparr>))"

definition row_at :: "frame \<Rightarrow> nat \<Rightarrow> pyval list" where
  "row_at f i = map (\<lambda>c. snd c ! i) (columns f)"

text \<open>\<^verbatim>\<open>df.drop_duplicates()\<close>: a row stays when no earlier row has the same entries.\<close>

definition first_rows :: "frame \<Rightarrow> nat list" where
  "first_rows f =
     filter (\<lambda>i. row_at f i \<notin> set (map (row_at f) [0..<i])) [0..<length (index f)]"

definition drop_duplicates :: "frame \<Rightarrow> frame" where
  "drop_duplicates f =
     \<lparr>index = map (\<lambda>i. index f ! i) (first_rows f),
      columns = map (\<lambda>(l, vs). (l, map (\<lambda>i. vs ! i) (first_rows f))) (columns f)\<rparr>"

text \<open>\<^verbatim>\<open>df.itertuples()\<close>: the row label, then the entries of the row.\<close>

definition itertuples :: "frame \<Rightarrow> (pyval \<times> pyval list) list" where
  "itertuples f = map (\<lambda>i. (index f ! i, row_at f i)) [0..<length (index f)]"

text \<open>
  The dictionary comprehension of lines 132 to 136. Each tuple is unpacked into
  \<^verbatim>\<open>pos, chrom\<close>, which needs exactly one entry after the row label; a key that is
  already there keeps its place and takes the new value.
\<close>

fun chr_pos_items :: "(string \<times> int) list \<Rightarrow> (pyval \<times> pyval list) list \<Rightarrow> error + (string \<times> int) list" where
  "chr_pos_items d [] = Inr d"
| "chr_pos_items d ((pos, vs) # ts) =
     (case vs of
        [chrom] \<Rightarrow>
          (case py_int pos of
             Inl e \<Rightarrow> Inl e
           | Inr n \<Rightarrow> chr_pos_items (AList.update (''chr'' @ py_str chrom) n d) ts)
      | _ \<Rightarrow> Inl (ValueError ''wrong number of values to unpack''))"

definition chr_pos :: "frame \<Rightarrow> error + (string \<times> int) list" where
  "chr_pos f =
     (case loc_columns [''chrom''] f of
        Inl e \<Rightarrow> Inl e
      | Inr g \<Rightarrow> chr_pos_items [] (itertuples (drop_duplicates g)))"

text \<open>\<^verbatim>\<open>df.drop(labels, axis=1)\<close>: without the columns carrying those labels.\<close>

definition drop_columns :: "string list \<Rightarrow> frame \<Rightarrow> error + frame" where
  "drop_columns labels f =
     (case filter (\<lambda>l. l \<notin> set (map fst (columns f))) labels of
        l # _ \<Rightarrow> Inl (KeyError l)
      | [] \<Rightarrow> Inr (f\<lparr>columns := filter (\<lambda>c. fst c \<notin> set labels) (columns f)\<rparr>))"

text \<open>\<^verbatim>\<open>df.values\<close>: one row per row label, one column per column of the frame.\<close>

definition frame_values :: "frame \<Rightarrow> pyval ndarray" where
  "frame_values f =
     \<lparr>nrows = length (index f), ncols = length (columns f),
      rows = map (row_at f) [0..<length (index f)]\<rparr>"

text \<open>Lines 140 and 143: drop the three columns, take the values, transpose.\<close>

definition output_matrix :: "frame \<Rightarrow> error + pyval ndarray" where
  "output_matrix f =
     (case drop_columns [''chrom'', ''chrompos'', ''abspos''] f of
        Inl e \<Rightarrow> Inl e
      | Inr g \<Rightarrow> Inr (T_ndarray (frame_values g)))"

subsection \<open>The analysis object, the call's arguments and the R side\<close>

text \<open>
  What the adapter stores under \<^verbatim>\<open>adata.uns\<close>: dictionaries down to integers. A
  dictionary is an association list in insertion order; \<open>AList.update\<close> is the
  assignment \<^verbatim>\<open>d[k] = v\<close> and \<open>map_of\<close> the lookup.
\<close>

datatype pyobj = PyInt int | PyDict "(string \<times> pyobj) list"

record 'a anndata =
  X :: "'a matrix"
  layers :: "(string \<times> 'a matrix) list"
  var_index :: "string list"
  obs_index :: "string list"
  uns :: "(string \<times> pyobj) list"
  obsm :: "(string \<times> pyval ndarray) list"

text \<open>The keyword arguments of \<^verbatim>\<open>copykat\<close>, lines 12 to 20.\<close>

record params =
  gene_ids :: string
  segmentation_cut :: real
  distance :: string
  s_name :: string
  min_genes_chr :: int
  key_added :: string
  inplace :: bool
  layer :: "string option"
  n_jobs :: "int option"

text \<open>The arguments of the R call \<^verbatim>\<open>copykat(...)\<close> of lines 117 to 119, with the row and
  column names lines 115 and 116 give the matrix.\<close>

record 'a request =
  arg_rawmat :: "'a ndarray"
  arg_rownames :: "string list"
  arg_colnames :: "string list"
  arg_id_type :: string
  arg_ngene_chr :: int
  arg_win_size :: int
  arg_KS_cut :: real
  arg_sam_name :: string
  arg_distance :: string
  arg_norm_cell_names :: string
  arg_n_cores :: int
  arg_output_seg :: bool

text \<open>
  The variables of R's global environment the adapter assigns or reads
  (\<^verbatim>\<open>ro.globalenv[...]\<close>); \<open>None\<close> is a variable that does not exist.
\<close>

record 'a globalenv =
  g_expr_r :: "'a ndarray option"
  g_gene_names :: "string list option"
  g_cell_IDs :: "string list option"
  g_n_jobs :: "int option"
  g_gene_ids :: "string option"
  g_segmentation_cut :: "real option"
  g_distance :: "string option"
  g_s_name :: "string option"
  g_min_gene_chr :: "int option"
  g_copyKAT_result :: "frame option"

text \<open>What the call can change besides the analysis object: R's global environment and the log.\<close>

record 'a world =
  globalenv :: "'a globalenv"
  log :: "string list"

text \<open>
  What the call finds on the machine: the platform, the number of cores, whether
  \<^verbatim>\<open>rpy2\<close> can be imported, the installed R packages, and R's \<^verbatim>\<open>copykat\<close> routine, which
  gives its \<^verbatim>\<open>CNAmat\<close> table or fails.
\<close>

record 'a env =
  os_name :: string
  cpu_count :: int
  rpy2_importable :: bool
  r_packages :: "string list"
  copykat_r :: "'a request \<Rightarrow> error + frame"

subsection \<open>The steps of \<^verbatim>\<open>copykat\<close>\<close>

text \<open>Lines 78 to 84.\<close>

definition import_rpy2 :: "'a env \<Rightarrow> error option" where
  "import_rpy2 env =
     (if rpy2_importable env then None
      else Some (ImportError ''copyKAT requires rpy2 to be installed. ''))"

text \<open>Lines 86 to 93: \<^verbatim>\<open>importr("copykat")\<close>, then \<^verbatim>\<open>importr("stringr")\<close>.\<close>

definition importr_packages :: "'a env \<Rightarrow> error option" where
  "importr_packages env =
     (if ''copykat'' \<notin> set (r_packages env) then
        Some (ImportError ''copyKAT requires a valid R installation with the following packages: copykat, stringr'')
      else if ''stringr'' \<notin> set (r_packages env) then
        Some (ImportError ''copyKAT requires a valid R installation with the following packages: copykat, stringr'')
      else None)"

text \<open>
  Line 97, \<^verbatim>\<open>adata.X if layer is None else tmp_adata.layers[layer]\<close>: no variable
  \<^verbatim>\<open>tmp_adata\<close> exists in the function or the module, so the second branch raises
  \<^verbatim>\<open>NameError\<close>.
\<close>

definition read_expr :: "'a anndata \<Rightarrow> string option \<Rightarrow> error + 'a matrix" where
  "read_expr adata lay =
     (case lay of
        None \<Rightarrow> Inr (X adata)
      | Some l \<Rightarrow> Inl (NameError ''tmp_adata''))"

text \<open>What the code would read if line 97 named \<^verbatim>\<open>adata\<close>: \<^verbatim>\<open>adata.layers[layer]\<close>.\<close>

definition read_expr_layers :: "'a anndata \<Rightarrow> string option \<Rightarrow> error + 'a matrix" where
  "read_expr_layers adata lay =
     (case lay of
        None \<Rightarrow> Inr (X adata)
      | Some l \<Rightarrow> (case map_of (layers adata) l of None \<Rightarrow> Inl (KeyError l) | Some m \<Rightarrow> Inr m))"

text \<open>Lines 102 to 110: the assignments into R's global environment.\<close>

definition assign_globalenv ::
  "'a ndarray \<Rightarrow> 'b anndata \<Rightarrow> params \<Rightarrow> int \<Rightarrow> 'a globalenv \<Rightarrow> 'a globalenv" where
  "assign_globalenv expr adata p n g =
     g\<lparr>g_expr_r := Some expr,
       g_gene_names := Some (var_index adata),
       g_cell_IDs := Some (obs_index adata),
       g_n_jobs := Some n,
       g_gene_ids := Some (gene_ids p),
       g_segmentation_cut := Some (segmentation_cut p),
       g_distance := Some (distance p),
       g_s_name := Some (s_name p),
       g_min_gene_chr := Some (min_genes_chr p)\<rparr>"

text \<open>
  Lines 113 to 123, the R script: it reads its variables from the global environment
  (a missing one is an R error), names the rows and columns of the matrix, calls the
  routine, and stores the routine's table, its column names rewritten, as
  \<^verbatim>\<open>copyKAT_result\<close>. An R error reaches Python as \<^verbatim>\<open>RRuntimeError\<close>.
\<close>

definition r_script :: "('a request \<Rightarrow> error + frame) \<Rightarrow> 'a globalenv \<Rightarrow> error + 'a globalenv" where
  "r_script routine g =
     (case (g_expr_r g, g_gene_names g, g_cell_IDs g, g_gene_ids g, g_min_gene_chr g,
            g_segmentation_cut g, g_s_name g, g_distance g, g_n_jobs g) of
        (Some m, Some gn, Some cn, Some idt, Some ng, Some ks, Some sn, Some d, Some nj) \<Rightarrow>
          (case routine \<lparr>arg_rawmat = m, arg_rownames = gn, arg_colnames = cn, arg_id_type = idt,
                         arg_ngene_chr = ng, arg_win_size = 25, arg_KS_cut = ks, arg_sam_name = sn,
                         arg_distance = d, arg_norm_cell_names = [], arg_n_cores = nj,
                         arg_output_seg = False\<rparr> of
             Inl e \<Rightarrow> Inl e
           | Inr cna \<Rightarrow> Inr (g\<lparr>g_copyKAT_result := Some (rename_colnames cna)\<rparr>))
      | _ \<Rightarrow> Inl (RRuntimeError ''object not found''))"

definition info :: "string \<Rightarrow> 'a world \<Rightarrow> 'a world" where
  "info msg w = w\<lparr>log := log w @ [msg]\<rparr>"

text \<open>The value stored under \<^verbatim>\<open>adata.uns[key_added]\<close>, lines 130 to 137.\<close>

definition chrom_pos_obj :: "(string \<times> int) list \<Rightarrow> pyobj" where
  "chrom_pos_obj d = PyDict [(''chr_pos'', PyDict (map (\<lambda>(k, n). (k, PyInt n)) d))]"

text \<open>
  Line 147, \<^verbatim>\<open>adata.obsm[key] = value\<close>. The object keeps under \<^verbatim>\<open>obsm\<close> only arrays
  with one row per cell: for an array with another number of rows the assignment raises
  \<^verbatim>\<open>ValueError\<close> and stores nothing. Line 146, \<^verbatim>\<open>adata.uns[key] = value\<close>, is a
  plain dictionary store.
\<close>

definition obsm_setitem :: "'a anndata \<Rightarrow> string \<Rightarrow> pyval ndarray \<Rightarrow> error + 'a anndata" where
  "obsm_setitem adata k v =
     (if nrows v \<noteq> length (obs_index adata) then Inl (ValueError ''Value passed for key is of incorrect shape'')
      else Inr (adata\<lparr>obsm := AList.update k v (obsm adata)\<rparr>))"

text \<open>
  The function. It returns what the call returns or raises, and the analysis object and
  the world as the call leaves them; \<open>Inr None\<close> is the return value \<^verbatim>\<open>None\<close>.
\<close>

definition copykat ::
  "'a::comm_monoid_add env \<Rightarrow> params \<Rightarrow> 'a anndata \<Rightarrow> 'a world \<Rightarrow>
     (error + pyval ndarray option) \<times> 'a anndata \<times> 'a world" where
  "copykat env p adata w =
     (let n = effective_n_jobs (os_name env) (cpu_count env) (n_jobs p) in
      (case import_rpy2 env of Some e \<Rightarrow> (Inl e, adata, w) | None \<Rightarrow>
      (case importr_packages env of Some e \<Rightarrow> (Inl e, adata, w) | None \<Rightarrow>
      (let w1 = info ''Preparing R objects'' w in
      (case read_expr adata (layer p) of Inl e \<Rightarrow> (Inl e, adata, w1) | Inr expr \<Rightarrow>
      (let w2 = w1\<lparr>globalenv := assign_globalenv (convert_expr expr) adata p n (globalenv w1)\<rparr>;
           w3 = info ''Running copyKAT'' w2 in
      (case r_script (copykat_r env) (globalenv w3) of Inl e \<Rightarrow> (Inl e, adata, w3) | Inr g \<Rightarrow>
      (let w4 = w3\<lparr>globalenv := g\<rparr> in
      (case g_copyKAT_result g of
         None \<Rightarrow> (Inl (KeyError ''copyKAT_result''), adata, w4)
       | Some copyKAT_result \<Rightarrow>
      (case chr_pos copyKAT_result of Inl e \<Rightarrow> (Inl e, adata, w4) | Inr d \<Rightarrow>
      (case output_matrix copyKAT_result of Inl e \<Rightarrow> (Inl e, adata, w4) | Inr new_cpkat_trans \<Rightarrow>
         (if inplace p then
            (let adata1 = adata\<lparr>uns := AList.update (key_added p) (chrom_pos_obj d) (uns adata)\<rparr> in
             (case obsm_setitem adata1 (''X_'' @ key_added p) new_cpkat_trans of
                Inl e \<Rightarrow> (Inl e, adata1, w4)
              | Inr adata2 \<Rightarrow> (Inr None, adata2, w4)))
          else (Inr (Some new_cpkat_trans), adata, w4)))))))))))))"

subsection \<open>Concrete calls\<close>

text \<open>
  Three cells and four genes, and tables a routine can give back: one whose chromosome
  column holds the strings \<^verbatim>\<open>chr1\<close> and \<^verbatim>\<open>chr2\<close>, one whose chromosome column holds
  numbers and whose cell columns carry periods, and one in which the routine has left
  the second cell out.
\<close>

definition scenario_X :: "int ndarray" where
  "scenario_X = \<lparr>nrows = 3, ncols = 4, rows = [[1, 0, 2, 0], [0, 3, 0, 0], [4, 0, 0, 5]]\<rparr>"

definition scenario_sparse :: "int spmatrix" where
  "scenario_sparse =
     \<lparr>sp_nrows = 3, sp_ncols = 4,
      entries = [((0, 0), 1), ((0, 2), 2), ((1, 1), 3), ((2, 0), 4), ((2, 3), 5)]\<rparr>"

definition scenario_adata :: "int anndata" where
  "scenario_adata =
     \<lparr>X = DenseM scenario_X, layers = [(''counts'', SparseM scenario_sparse)],
      var_index = [''G1'', ''G2'', ''G3'', ''G4''], obs_index = [''c1'', ''c2'', ''c3''],
      uns = [], obsm = []\<rparr>"


definition numbered_table :: frame where
  "numbered_table =
     \<lparr>index = [StrV ''1'', StrV ''2'', StrV ''3''],
      columns = [(''chrom'', [IntV 1, IntV 1, IntV 2]),
                 (''chrompos'', [IntV 1000, IntV 2000, IntV 1000]),
                 (''abspos'', [IntV 100, IntV 300, IntV 500]),
                 (''AAA.CAT.1'', [IntV 1, IntV 2, IntV 3]),
                 (''c2'', [IntV 4, IntV 5, IntV 6]),
                 (''c3'', [IntV 7, IntV 8, IntV 9])]\<rparr>"


text \<open>A POSIX machine with eight cores and everything installed; the routine returns the given table.\<close>

definition stub_env :: "frame \<Rightarrow> int env" where
  "stub_env t =
     \<lparr>os_name = ''posix'', cpu_count = 8, rpy2_importable = True,
      r_packages = [''copykat'', ''stringr''], copykat_r = (\<lambda>_. Inr t)\<rparr>"

text \<open>The defaults of the signature, lines 12 to 20.\<close>

definition default_params :: params where
  "default_params =
     \<lparr>gene_ids = ''S'', segmentation_cut = 1 / 10, distance = ''euclidean'',
      s_name = ''copykat_result'', min_genes_chr = 5, key_added = ''cnv'', inplace = True,
      layer = None, n_jobs = None\<rparr>"

definition empty_globalenv :: "int globalenv" where
  "empty_globalenv =
     \<lparr>g_expr_r = None, g_gene_names = None, g_cell_IDs = None, g_n_jobs = None,
      g_gene_ids = None, g_segmentation_cut = None, g_distance = None, g_s_name = None,
      g_min_gene_chr = None, g_copyKAT_result = None\<rparr>"

definition fresh_world :: "int world" where
  "fresh_world = \<lparr>globalenv = empty_globalenv, log = []\<rparr>"

text \<open>The global environment after a call on \<open>scenario_adata\<close> with the default arguments.\<close>

definition scenario_globalenv :: "frame \<Rightarrow> int globalenv" where
  "scenario_globalenv t =
     \<lparr>g_expr_r = Some \<lparr>nrows = 4, ncols = 3, rows = [[1, 0, 4], [0, 3, 0], [2, 0, 0], [0, 0, 5]]\<rparr>,
      g_gene_names = Some [''G1'', ''G2'', ''G3'', ''G4''],
      g_cell_IDs = Some [''c1'', ''c2'', ''c3''],
      g_n_jobs = Some 8, g_gene_ids = Some ''S'', g_segmentation_cut = Some (1 / 10),
      g_distance = Some ''euclidean'', g_s_name = Some ''copykat_result'',
      g_min_gene_chr = Some 5, g_copyKAT_result = Some t\<rparr>"


text \<open>
  A dense array and a sparse matrix hold the same values: the same shape, and each entry
  of the array is the value the sparse matrix has at that coordinate.
\<close>

definition same_values :: "'a::comm_monoid_add spmatrix \<Rightarrow> 'a ndarray \<Rightarrow> bool" where
  "same_values S D =
     (wf_ndarray D \<and> nrows D = sp_nrows S \<and> ncols D = sp_ncols S
      \<and> list_all (\<lambda>i. list_all (\<lambda>j. rows D ! i ! j = sp_at S i j) [0..<ncols D]) [0..<nrows D])"


section \<open>Properties\<close>

subsection \<open>Shared facts\<close>



lemma r_script_n_jobs:
  assumes "r_script routine g = Inr g'"
  shows "g_n_jobs g' = g_n_jobs g"
  using assms by (auto simp: r_script_def split: option.splits sum.splits)

subsection \<open>Worker count\<close>

text \<open>
  C8. The worker count handed to the routine is 1 when the platform is not POSIX,
  whatever the caller asked for and however many cores there are; on POSIX it is the
  caller's value when there is one and the number of cores otherwise. The second
  equation shows the R call the script makes from the assigned variables:
  \<^verbatim>\<open>n.cores\<close> is that count. The third part is the whole call: once the imports have
  succeeded and the matrix has been read, R's variable \<^verbatim>\<open>n_jobs\<close> holds that count.
\<close>

theorem worker_count:
  "effective_n_jobs os cpu nj =
     (if os \<noteq> ''posix'' then 1 else case nj of None \<Rightarrow> cpu | Some k \<Rightarrow> k)
   \<and> r_script routine (assign_globalenv expr adata p (effective_n_jobs os cpu nj) g) =
     (case routine \<lparr>arg_rawmat = expr, arg_rownames = var_index adata,
                    arg_colnames = obs_index adata, arg_id_type = gene_ids p,
                    arg_ngene_chr = min_genes_chr p, arg_win_size = 25,
                    arg_KS_cut = segmentation_cut p, arg_sam_name = s_name p,
                    arg_distance = distance p, arg_norm_cell_names = [],
                    arg_n_cores = (if os \<noteq> ''posix'' then 1 else case nj of None \<Rightarrow> cpu | Some k \<Rightarrow> k),
                    arg_output_seg = False\<rparr> of
        Inl e \<Rightarrow> Inl e
      | Inr cna \<Rightarrow> Inr ((assign_globalenv expr adata p (effective_n_jobs os cpu nj) g)
                          \<lparr>g_copyKAT_result := Some (rename_colnames cna)\<rparr>))
   \<and> (rpy2_importable env \<and> ''copykat'' \<in> set (r_packages env)
        \<and> ''stringr'' \<in> set (r_packages env) \<and> layer q = None \<longrightarrow>
      g_n_jobs (globalenv (snd (snd (copykat env q ad w)))) =
        Some (if os_name env \<noteq> ''posix'' then 1
              else case n_jobs q of None \<Rightarrow> cpu_count env | Some k \<Rightarrow> k))"
proof -
  have a: "effective_n_jobs os cpu nj =
      (if os \<noteq> ''posix'' then 1 else case nj of None \<Rightarrow> cpu | Some k \<Rightarrow> k)" for os cpu nj
    by (simp add: effective_n_jobs_def)
  have b: "r_script routine (assign_globalenv expr adata p (effective_n_jobs os cpu nj) g) =
     (case routine \<lparr>arg_rawmat = expr, arg_rownames = var_index adata,
                    arg_colnames = obs_index adata, arg_id_type = gene_ids p,
                    arg_ngene_chr = min_genes_chr p, arg_win_size = 25,
                    arg_KS_cut = segmentation_cut p, arg_sam_name = s_name p,
                    arg_distance = distance p, arg_norm_cell_names = [],
                    arg_n_cores = (if os \<noteq> ''posix'' then 1 else case nj of None \<Rightarrow> cpu | Some k \<Rightarrow> k),
                    arg_output_seg = False\<rparr> of
        Inl e \<Rightarrow> Inl e
      | Inr cna \<Rightarrow> Inr ((assign_globalenv expr adata p (effective_n_jobs os cpu nj) g)
                          \<lparr>g_copyKAT_result := Some (rename_colnames cna)\<rparr>))"
    by (simp add: effective_n_jobs_def r_script_def assign_globalenv_def split: sum.splits)
  have c: "g_n_jobs (globalenv (snd (snd (copykat env q ad w)))) =
      Some (effective_n_jobs (os_name env) (cpu_count env) (n_jobs q))"
    if "rpy2_importable env" "''copykat'' \<in> set (r_packages env)"
      "''stringr'' \<in> set (r_packages env)" "layer q = None"
  proof -
    let ?n = "effective_n_jobs (os_name env) (cpu_count env) (n_jobs q)"
    let ?g = "assign_globalenv (convert_expr (X ad)) ad q ?n (globalenv w)"
    have g: "g_n_jobs ?g = Some ?n" by (simp add: assign_globalenv_def)
    show ?thesis
    proof (cases "r_script (copykat_r env) ?g")
      case (Inl e)
      with that g show ?thesis
        by (simp add: copykat_def Let_def import_rpy2_def importr_packages_def read_expr_def info_def)
    next
      case (Inr g')
      from r_script_n_jobs [OF Inr] g have "g_n_jobs g' = Some ?n" by simp
      with that Inr show ?thesis
        by (simp add: copykat_def Let_def import_rpy2_def importr_packages_def read_expr_def
            info_def obsm_setitem_def split: option.splits sum.splits)
    qed
  qed
  from a b c show ?thesis by simp
qed

theorem worker_count_witness:
  "effective_n_jobs ''nt'' 8 (Some 4) = 1 \<and> effective_n_jobs ''nt'' 8 None = 1
   \<and> effective_n_jobs ''posix'' 8 (Some 4) = 4 \<and> effective_n_jobs ''posix'' 8 None = 8
   \<and> g_n_jobs (globalenv (snd (snd (copykat ((stub_env numbered_table)\<lparr>os_name := ''nt''\<rparr>)
         (default_params\<lparr>n_jobs := Some 4\<rparr>) scenario_adata fresh_world)))) = Some 1
   \<and> g_n_jobs (globalenv (snd (snd (copykat (stub_env numbered_table)
         default_params scenario_adata fresh_world)))) = Some 8"
proof -
  let ?nt = "(stub_env numbered_table)\<lparr>os_name := ''nt''\<rparr>"
  let ?q = "default_params\<lparr>n_jobs := Some 4\<rparr>"
  have h1: "rpy2_importable ?nt \<and> ''copykat'' \<in> set (r_packages ?nt)
      \<and> ''stringr'' \<in> set (r_packages ?nt) \<and> layer ?q = None"
    by (simp add: stub_env_def default_params_def)
  have h2: "rpy2_importable (stub_env numbered_table)
      \<and> ''copykat'' \<in> set (r_packages (stub_env numbered_table))
      \<and> ''stringr'' \<in> set (r_packages (stub_env numbered_table)) \<and> layer default_params = None"
    by (simp add: stub_env_def default_params_def)
  have v1: "os_name ?nt = ''nt''" "os_name (stub_env numbered_table) = ''posix''"
    "cpu_count (stub_env numbered_table) = 8" "n_jobs default_params = None"
    by (simp_all add: stub_env_def default_params_def)
  note t1 = worker_count [THEN conjunct2, THEN conjunct2, of ?nt ?q scenario_adata fresh_world]
  note t2 = worker_count [THEN conjunct2, THEN conjunct2, of "stub_env numbered_table"
      default_params scenario_adata fresh_world]
  from t1 h1 v1 have c1: "g_n_jobs (globalenv (snd (snd (copykat ?nt ?q scenario_adata fresh_world)))) = Some 1"
    by simp
  from t2 h2 v1 have c2: "g_n_jobs (globalenv (snd (snd (copykat (stub_env numbered_table)
      default_params scenario_adata fresh_world)))) = Some 8"
    by simp
  from c1 c2 show ?thesis
    using worker_count [THEN conjunct1, of "''nt''" 8 "Some 4"]
      worker_count [THEN conjunct1, of "''nt''" 8 None]
      worker_count [THEN conjunct1, of "''posix''" 8 "Some 4"]
      worker_count [THEN conjunct1, of "''posix''" 8 None]
    by simp
qed

subsection \<open>Column labels\<close>

text \<open>
  C9. Every period of a column label becomes a hyphen and every other character stays:
  \<^verbatim>\<open>AAA.CAT.1\<close> becomes \<^verbatim>\<open>AAA-CAT-1\<close>, a label without a period is unchanged. The
  renaming touches the labels only, and the table the script leaves for Python is a
  renamed one.
\<close>

theorem period_to_hyphen:
  "length (str_replace_all_period s) = length s
   \<and> (\<forall>i<length s. str_replace_all_period s ! i = (if s ! i = CHR ''.'' then CHR ''-'' else s ! i))
   \<and> str_replace_all_period ''AAA.CAT.1'' = ''AAA-CAT-1''
   \<and> (CHR ''.'' \<notin> set t \<longrightarrow> str_replace_all_period t = t)
   \<and> map fst (columns (rename_colnames f)) = map str_replace_all_period (map fst (columns f))
   \<and> map snd (columns (rename_colnames f)) = map snd (columns f)
   \<and> index (rename_colnames f) = index f
   \<and> (r_script routine g = Inr g' \<longrightarrow>
        (\<exists>cna. g_copyKAT_result g' = Some (rename_colnames cna)))"
proof -
  have a: "CHR ''.'' \<notin> set t \<longrightarrow> str_replace_all_period t = t"
    by (induction t) (simp_all add: str_replace_all_period_def)
  have b: "r_script routine g = Inr g' \<longrightarrow> (\<exists>cna. g_copyKAT_result g' = Some (rename_colnames cna))"
    by (auto simp: r_script_def split: option.splits sum.splits)
  have c: "map fst (columns (rename_colnames f)) = map str_replace_all_period (map fst (columns f))"
    by (simp add: rename_colnames_def case_prod_unfold comp_def)
  have d: "map snd (columns (rename_colnames f)) = map snd (columns f)"
    by (simp add: rename_colnames_def case_prod_unfold comp_def)
  have e: "str_replace_all_period ''AAA.CAT.1'' = ''AAA-CAT-1''"
    by (simp add: str_replace_all_period_def)
  show ?thesis using a b c d e
    by (simp add: str_replace_all_period_def rename_colnames_def)
qed

theorem period_to_hyphen_witness:
  "str_replace_all_period ''AAA.CAT.1'' ! 3 = CHR ''-''
   \<and> CHR ''.'' \<notin> set ''c2'' \<and> str_replace_all_period ''c2'' = ''c2''
   \<and> map fst (columns (rename_colnames numbered_table)) =
       [''chrom'', ''chrompos'', ''abspos'', ''AAA-CAT-1'', ''c2'', ''c3'']
   \<and> r_script (\<lambda>_. Inr numbered_table) (scenario_globalenv numbered_table) =
       Inr (scenario_globalenv (rename_colnames numbered_table))
   \<and> (\<exists>cna. g_copyKAT_result (scenario_globalenv (rename_colnames numbered_table)) =
         Some (rename_colnames cna))"
proof -
  have h: "r_script (\<lambda>_. Inr numbered_table) (scenario_globalenv numbered_table) =
             Inr (scenario_globalenv (rename_colnames numbered_table))"
    by code_simp
  have l: "map fst (columns numbered_table) =
             [''chrom'', ''chrompos'', ''abspos'', ''AAA.CAT.1'', ''c2'', ''c3'']"
    by (simp add: numbered_table_def)
  show ?thesis
    using h l period_to_hyphen [of "''AAA.CAT.1''" "''c2''" numbered_table "\<lambda>_. Inr numbered_table"
        "scenario_globalenv numbered_table" "scenario_globalenv (rename_colnames numbered_table)"]
    by (simp add: str_replace_all_period_def)
qed

subsection \<open>Missing dependencies\<close>

text \<open>
  C7. When \<^verbatim>\<open>rpy2\<close> cannot be imported, or the R package \<^verbatim>\<open>copykat\<close> or \<^verbatim>\<open>stringr\<close> is
  not installed, the call raises \<^verbatim>\<open>ImportError\<close>; the message names \<^verbatim>\<open>rpy2\<close> in the first
  case and both packages in the second. The analysis object, R's global environment and
  the log are as they were: nothing has been converted, assigned or run.
\<close>

theorem dependency_missing:
  assumes "\<not> rpy2_importable env \<or> ''copykat'' \<notin> set (r_packages env)
           \<or> ''stringr'' \<notin> set (r_packages env)"
  shows "\<exists>msg. copykat env p adata w = (Inl (ImportError msg), adata, w)
           \<and> (if rpy2_importable env then sublist ''copykat'' msg \<and> sublist ''stringr'' msg
               else sublist ''rpy2'' msg)"
proof (cases "rpy2_importable env")
  case False
  have "sublist ''rpy2'' (''copyKAT requires '' @ ''rpy2'' @ '' to be installed. '')"
    by (rule sublist_appendI)
  then have "sublist ''rpy2'' ''copyKAT requires rpy2 to be installed. ''" by simp
  with False show ?thesis
    by (simp add: copykat_def import_rpy2_def)
next
  case True
  let ?m = "''copyKAT requires a valid R installation with the following packages: copykat, stringr''"
  have "sublist ''copykat'' (''copyKAT requires a valid R installation with the following packages: '' @ ''copykat'' @ '', stringr'')"
    by (rule sublist_appendI)
  then have s1: "sublist ''copykat'' ?m" by simp
  have "sublist ''stringr'' (''copyKAT requires a valid R installation with the following packages: copykat, '' @ ''stringr'' @ [])"
    by (rule sublist_appendI)
  then have s2: "sublist ''stringr'' ?m" by simp
  from True assms have "importr_packages env = Some (ImportError ?m)"
    by (auto simp: importr_packages_def)
  with True s1 s2 show ?thesis
    by (simp add: copykat_def import_rpy2_def)
qed

theorem dependency_missing_witness:
  "''stringr'' \<notin> set (r_packages ((stub_env numbered_table)\<lparr>r_packages := [''copykat'']\<rparr>))
   \<and> (\<exists>msg. copykat ((stub_env numbered_table)\<lparr>r_packages := [''copykat'']\<rparr>)
               default_params scenario_adata fresh_world =
             (Inl (ImportError msg), scenario_adata, fresh_world)
           \<and> sublist ''stringr'' msg)"
proof -
  let ?env = "(stub_env numbered_table)\<lparr>r_packages := [''copykat'']\<rparr>"
  have h: "''stringr'' \<notin> set (r_packages ?env)" by (simp add: stub_env_def)
  have i: "rpy2_importable ?env" by (simp add: stub_env_def)
  from h have "\<not> rpy2_importable ?env \<or> ''copykat'' \<notin> set (r_packages ?env)
       \<or> ''stringr'' \<notin> set (r_packages ?env)" by blast
  from dependency_missing [OF this, of default_params scenario_adata fresh_world] i h
  show ?thesis by auto
qed

subsection \<open>The layer argument\<close>

text \<open>
  C6. A call that names a layer does not read it. With everything installed, such a call
  raises \<^verbatim>\<open>NameError\<close> at line 97, where \<^verbatim>\<open>tmp_adata\<close> stands for \<^verbatim>\<open>adata\<close>; the
  layer it was asked for exists and reading \<^verbatim>\<open>adata.layers[layer]\<close> would have given
  it.
\<close>

theorem layer_raises_name_error:
  "fst (copykat (stub_env numbered_table) (default_params\<lparr>layer := Some ''counts''\<rparr>)
          scenario_adata fresh_world) = Inl (NameError ''tmp_adata'')
   \<and> read_expr_layers scenario_adata (Some ''counts'') = Inr (SparseM scenario_sparse)"
  by code_simp

subsection \<open>Storing or returning\<close>






subsection \<open>Sparse and dense input\<close>

lemma sp_at_T: "sp_at (T_spmatrix S) j i = sp_at S i j"
proof -
  have "map snd (filter (\<lambda>e. fst e = (j, i)) (map (\<lambda>((a, b), v). ((b, a), v)) es)) =
        map snd (filter (\<lambda>e. fst e = (i, j)) es)" for es :: "((nat \<times> nat) \<times> 'a) list"
    by (induction es) auto
  then show ?thesis by (simp add: sp_at_def T_spmatrix_def)
qed

lemma toarray_T: "toarray (T_spmatrix S) = T_ndarray (toarray S)"
  by (simp add: toarray_def T_ndarray_def sp_at_T) (simp add: T_spmatrix_def)

lemma same_values_toarray:
  assumes "same_values S D"
  shows "D = toarray S"
proof -
  from assms have shape: "nrows D = sp_nrows S" "ncols D = sp_ncols S"
    and len: "length (rows D) = sp_nrows S"
    and row_len: "\<And>i. i < sp_nrows S \<Longrightarrow> length (rows D ! i) = sp_ncols S"
    and at: "\<And>i j. i < sp_nrows S \<Longrightarrow> j < sp_ncols S \<Longrightarrow> rows D ! i ! j = sp_at S i j"
    by (auto simp: same_values_def wf_ndarray_def list_all_iff)
  have "rows D = map (\<lambda>i. map (\<lambda>j. sp_at S i j) [0..<sp_ncols S]) [0..<sp_nrows S]"
  proof (rule nth_equalityI)
    show "length (rows D) = length (map (\<lambda>i. map (\<lambda>j. sp_at S i j) [0..<sp_ncols S]) [0..<sp_nrows S])"
      using len by simp
  next
    fix i assume "i < length (rows D)"
    then have i: "i < sp_nrows S" using len by simp
    have "rows D ! i = map (\<lambda>j. sp_at S i j) [0..<sp_ncols S]"
      by (rule nth_equalityI) (simp_all add: row_len [OF i] at [OF i])
    with i show "rows D ! i = map (\<lambda>i. map (\<lambda>j. sp_at S i j) [0..<sp_ncols S]) [0..<sp_nrows S] ! i"
      by simp
  qed
  with shape show ?thesis by (simp add: toarray_def)
qed

lemma copykat_reads_converted:
  assumes "convert_expr m1 = convert_expr m2"
    and "copykat env p (adata\<lparr>X := m1\<rparr>) w = (r, a, w')"
  shows "copykat env p (adata\<lparr>X := m2\<rparr>) w = (r, a\<lparr>X := m2\<rparr>, w')"
  using assms
  by (auto simp: copykat_def Let_def read_expr_def assign_globalenv_def obsm_setitem_def
      split: option.splits sum.splits if_splits)

text \<open>
  C5. When a sparse matrix and a dense array hold the same values, the conversion step
  gives the same array for both (making the transposed sparse matrix dense, and
  transposing the dense array), and the two calls return the same value and leave the
  same annotation slots and the same world.
\<close>

theorem sparse_dense_same_output:
  assumes "same_values S D"
  shows "convert_expr (SparseM S) = convert_expr (DenseM D)
       \<and> fst (copykat env p (adata\<lparr>X := SparseM S\<rparr>) w) = fst (copykat env p (adata\<lparr>X := DenseM D\<rparr>) w)
       \<and> obsm (fst (snd (copykat env p (adata\<lparr>X := SparseM S\<rparr>) w))) =
           obsm (fst (snd (copykat env p (adata\<lparr>X := DenseM D\<rparr>) w)))
       \<and> uns (fst (snd (copykat env p (adata\<lparr>X := SparseM S\<rparr>) w))) =
           uns (fst (snd (copykat env p (adata\<lparr>X := DenseM D\<rparr>) w)))
       \<and> snd (snd (copykat env p (adata\<lparr>X := SparseM S\<rparr>) w)) =
           snd (snd (copykat env p (adata\<lparr>X := DenseM D\<rparr>) w))"
proof -
  have c: "convert_expr (SparseM S) = convert_expr (DenseM D)"
    using same_values_toarray [OF assms] by (simp add: toarray_T)
  obtain r a w' where run: "copykat env p (adata\<lparr>X := SparseM S\<rparr>) w = (r, a, w')"
    by (cases "copykat env p (adata\<lparr>X := SparseM S\<rparr>) w") blast
  from copykat_reads_converted [OF c run] run c show ?thesis by simp
qed

theorem sparse_dense_same_output_witness:
  "same_values scenario_sparse scenario_X
   \<and> convert_expr (SparseM scenario_sparse) =
       \<lparr>nrows = 4, ncols = 3, rows = [[1, 0, 4], [0, 3, 0], [2, 0, 0], [0, 0, 5]]\<rparr>
   \<and> convert_expr (DenseM scenario_X) =
       \<lparr>nrows = 4, ncols = 3, rows = [[1, 0, 4], [0, 3, 0], [2, 0, 0], [0, 0, 5]]\<rparr>"
proof -
  have h: "same_values scenario_sparse scenario_X" by code_simp
  have d: "convert_expr (DenseM scenario_X) =
             \<lparr>nrows = 4, ncols = 3, rows = [[1, 0, 4], [0, 3, 0], [2, 0, 0], [0, 0, 5]]\<rparr>"
    by code_simp
  from sparse_dense_same_output [OF h] d h show ?thesis by simp
qed

subsection \<open>The Output Matrix\<close>






subsection \<open>The chromosome dictionary\<close>

















end
